theory Spec2Isabelle
  imports Main
begin

section \<open>Values, messages and errors\<close>

text \<open>
  The employee workflow of the Portal backend: \<^verbatim>\<open>FuncionarioMiddleware.js\<close>,
  \<^verbatim>\<open>FuncionarioService.js\<close> and \<^verbatim>\<open>FuncionarioDAO.js\<close>.

  A JavaScript \<^verbatim>\<open>undefined\<close> (or \<^verbatim>\<open>null\<close>) field of a typed value is \<open>None\<close>. Strings
  are byte lists (UTF-8); the accented letters of the Portuguese messages are written as
  their bytes.
\<close>

abbreviation a_acute :: string where "a_acute \<equiv> [CHR 0xC3, CHR 0xA1]"
abbreviation a_tilde :: string where "a_tilde \<equiv> [CHR 0xC3, CHR 0xA3]"
abbreviation c_cedil :: string where "c_cedil \<equiv> [CHR 0xC3, CHR 0xA7]"
abbreviation e_acute :: string where "e_acute \<equiv> [CHR 0xC3, CHR 0xA9]"
abbreviation i_acute :: string where "i_acute \<equiv> [CHR 0xC3, CHR 0xAD]"
abbreviation o_acute :: string where "o_acute \<equiv> [CHR 0xC3, CHR 0xB3]"
abbreviation u_acute :: string where "u_acute \<equiv> [CHR 0xC3, CHR 0xBA]"

text \<open>A value bound to a \<^verbatim>\<open>?\<close> of a statement, or substituted into a template literal.\<close>

datatype val = VInt int | VStr string

text \<open>
  A template literal \<^verbatim>\<open>`text ${v} text`\<close> is kept as its pieces, so that the substituted
  value can be read back from the message.
\<close>

datatype piece = Text string | Subst val

type_synonym message = "piece list"

text \<open>
  \<^verbatim>\<open>new ErrorResponse(statusCode, title, { message })\<close>, \<^verbatim>\<open>new Error(message)\<close>, and the
  \<^verbatim>\<open>TypeError\<close> raised by the runtime (a property read on \<^verbatim>\<open>undefined\<close>) or by the
  database driver (an \<^verbatim>\<open>undefined\<close> bind parameter).
\<close>

datatype exn =
    ErrorResponse nat string message
  | Error message
  | TypeError

text \<open>
  A value as the JSON parser hands it over in a request body. A number is seen by the
  code only through \<^verbatim>\<open>Number.isInteger\<close>, \<^verbatim>\<open><= 0\<close> and its truthiness: \<open>JInt n\<close> is a number
  with the integer value \<open>n\<close>, \<open>JNonInt\<close> any other number but \<^verbatim>\<open>NaN\<close> (a fraction or
  an infinity), \<open>JNaN\<close> is \<^verbatim>\<open>NaN\<close>.
\<close>

datatype js =
    JUndefined
  | JNull
  | JBoolean bool
  | JInt int
  | JNonInt
  | JNaN
  | JString string
  | JObject "(string \<times> js) list"
  | JArray "js list"

fun truthy :: "js \<Rightarrow> bool" where
  "truthy JUndefined = False"
| "truthy JNull = False"
| "truthy (JBoolean b) = b"
| "truthy (JInt n) = (n \<noteq> 0)"
| "truthy JNonInt = True"
| "truthy JNaN = False"
| "truthy (JString s) = (s \<noteq> [])"
| "truthy (JObject kvs) = True"
| "truthy (JArray xs) = True"

section \<open>The model classes\<close>

text \<open>
  Modelled from the spec: the classes \<^verbatim>\<open>model/Cargo\<close> and \<^verbatim>\<open>model/Funcionario\<close> are not
  among the sources. The service "assembles an Employee value (role reference + all
  supplied fields)": an object whose fields are unset after \<^verbatim>\<open>new\<close> and hold what was
  assigned to them. The password is held as it came in the body, whatever its type.
\<close>

record Cargo =
  idCargo :: "int option"
  nomeCargo :: "string option"

record Funcionario =
  idFuncionario :: "int option"
  nomeFuncionario :: "string option"
  email :: "string option"
  usuario :: "string option"
  senha :: js
  cargo :: "Cargo option"

definition new_Cargo :: Cargo where
  "new_Cargo = \<lparr>Cargo.idCargo = None, Cargo.nomeCargo = None\<rparr>"

definition new_Funcionario :: Funcionario where
  "new_Funcionario =
     \<lparr>Funcionario.idFuncionario = None, Funcionario.nomeFuncionario = None,
      Funcionario.email = None, Funcionario.usuario = None, Funcionario.senha = JUndefined,
      Funcionario.cargo = None\<rparr>"

section \<open>The database and the libraries\<close>

text \<open>The two tables, as the statements of the DAO read and write them.\<close>

record cargo_row =
  idCargo :: int
  nomeCargo :: string

record funcionario_row =
  idFuncionario :: int
  nomeFuncionario :: string
  email :: string
  usuario :: string
  senha :: string
  Cargo_idCargo :: int

text \<open>The statements of \<^verbatim>\<open>FuncionarioDAO.js\<close>; \<open>SELECT_funcionario field\<close> is
  \<^verbatim>\<open>`SELECT * FROM funcionario WHERE ${field} = ?;`\<close>. \<open>SELECT_cargo\<close> is the lookup of
  \<^verbatim>\<open>CargoDAO.findById\<close>.\<close>

datatype statement =
    INSERT_funcionario
  | DELETE_funcionario
  | UPDATE_funcionario_senha
  | UPDATE_funcionario
  | SELECT_funcionario string
  | SELECT_login
  | SELECT_cargo

text \<open>What the code asks of its collaborators, in the order it asks.\<close>

datatype event =
    Execute statement "val list"
  | BcryptHash string
  | BcryptCompare string string

record world =
  tb_funcionario :: "funcionario_row list"
  tb_cargo :: "cargo_row list"
  auto_increment :: int
  trace :: "event list"

definition emit :: "event \<Rightarrow> world \<Rightarrow> world" where
  "emit e w = w\<lparr>trace := trace w @ [e]\<rparr>"

text \<open>
  The payload handed to the token issuer, and the libraries the code calls:
  \<open>bcrypt_hash\<close> is the outcome of \<^verbatim>\<open>bcrypt.hash(data, 12)\<close> on a string in the call at hand
  (the library draws the salt), \<open>bcrypt_compare\<close> is \<^verbatim>\<open>bcrypt.compare(data, hash)\<close> on
  strings, and \<open>gerarToken\<close> is \<^verbatim>\<open>MeuTokenJWT.gerarToken\<close>. Both \<^verbatim>\<open>bcrypt\<close> functions reject
  with an \<^verbatim>\<open>Error\<close> when the data is \<^verbatim>\<open>undefined\<close> or \<^verbatim>\<open>null\<close>, and with another when it
  is no string.
\<close>

record claims =
  email :: "string option"
  usuario :: "string option"
  role :: "string option"
  name :: "string option"
  idFuncionario :: "int option"

record env =
  bcrypt_hash :: "string \<Rightarrow> string"
  bcrypt_compare :: "string \<Rightarrow> string \<Rightarrow> bool"
  gerarToken :: "claims \<Rightarrow> string"

definition bcrypt_hash_required :: exn where
  "bcrypt_hash_required = Error [Text ''data and salt arguments required'']"

definition bcrypt_hash_not_string :: exn where
  "bcrypt_hash_not_string =
     Error [Text (''data must be a string or Buffer and salt must either be a salt string ''
                  @ ''or a number of rounds'')]"

definition bcrypt_compare_required :: exn where
  "bcrypt_compare_required = Error [Text ''data and hash arguments required'']"

definition bcrypt_compare_not_strings :: exn where
  "bcrypt_compare_not_strings = Error [Text ''data and hash must be strings'']"

subsection \<open>The text of the statements\<close>

text \<open>
  The statements of \<open>create\<close>, \<open>update\<close> and \<open>login\<close> are template literals over several
  lines. Their text starts with the line break after the back quote and keeps the
  indentation of the source file, which is written with U+00A0 (the bytes C2 A0) and
  spaces in turn: twelve columns in \<open>create\<close> and \<open>login\<close>, sixteen in \<open>update\<close>. The
  statements of \<open>delete\<close> and \<open>findByField\<close> are written on one line.
\<close>

abbreviation nbsp :: string where "nbsp \<equiv> [CHR 0xC2, CHR 0xA0]"
abbreviation line_break :: string where "line_break \<equiv> [CHR 0x0A]"

definition indent12 :: string where
  "indent12 = nbsp @ '' '' @ nbsp @ '' '' @ nbsp @ '' '' @ nbsp @ '' '' @ nbsp @ '' ''
              @ nbsp @ '' ''"

definition indent16 :: string where
  "indent16 = indent12 @ nbsp @ '' '' @ nbsp @ '' ''"

definition SQL_create :: string where
  "SQL_create =
     line_break @ indent12 @ ''INSERT INTO funcionario '' @
     line_break @ indent12 @ ''(nomeFuncionario, email, usuario, senha, Cargo_idCargo) '' @
     line_break @ indent12 @ ''VALUES (?, ?, ?, ?, ?);''"

definition SQL_update_senha :: string where
  "SQL_update_senha =
     line_break @ indent16 @ ''UPDATE funcionario '' @
     line_break @ indent16
       @ ''SET nomeFuncionario=?, email=?, usuario=?, senha=?, Cargo_idCargo=? '' @
     line_break @ indent16 @ ''WHERE idFuncionario=?;''"

definition SQL_update :: string where
  "SQL_update =
     line_break @ indent16 @ ''UPDATE funcionario '' @
     line_break @ indent16 @ ''SET nomeFuncionario=?, email=?, usuario=?, Cargo_idCargo=? '' @
     line_break @ indent16 @ ''WHERE idFuncionario=?;''"

definition SQL_login :: string where
  "SQL_login =
     line_break @ indent12
       @ ''SELECT idFuncionario, nomeFuncionario, email, usuario, senha, idCargo, nomeCargo'' @
     line_break @ indent12 @ ''FROM funcionario'' @
     line_break @ indent12 @ ''JOIN cargo ON cargo.idCargo = funcionario.Cargo_idCargo'' @
     line_break @ indent12 @ ''WHERE email = ?;''"

definition SQL_delete :: string where
  "SQL_delete = ''DELETE FROM funcionario WHERE idFuncionario = ?;''"

definition SQL_findByField :: "string \<Rightarrow> string" where
  "SQL_findByField field = ''SELECT * FROM funcionario WHERE '' @ field @ '' = ?;''"

text \<open>
  The engine (MySQL, over a UTF-8 connection) takes a statement apart into words; white
  space to it is the ASCII white space, and every character from U+0080 on is a letter
  of a name. So U+00A0 is read as a name, which cannot stand where it stands in these
  texts, and a text that holds it is refused with a syntax error: the driver rejects
  with an \<^verbatim>\<open>Error\<close> (code \<^verbatim>\<open>ER_PARSE_ERROR\<close>), no row is read or written.
\<close>

fun has_nbsp :: "string \<Rightarrow> bool" where
  "has_nbsp (a # b # cs) = (a = CHR 0xC2 \<and> b = CHR 0xA0 \<or> has_nbsp (b # cs))"
| "has_nbsp cs = False"

definition parse_error :: exn where
  "parse_error = Error [Text ''ER_PARSE_ERROR'']"

subsection \<open>The statements\<close>

text \<open>
  The storage engine is outside the repository. A statement whose text it accepts is
  modelled by what it does to the two tables: \<^verbatim>\<open>=\<close> is equality of values, an insert
  appends a row under the next auto-increment key, and \<^verbatim>\<open>affectedRows\<close> counts the rows
  the \<^verbatim>\<open>WHERE\<close> clause matched. Constraints of the schema (not among the sources) are not
  modelled. A statement whose text it refuses is recorded in the trace and changes
  nothing.
\<close>

definition column :: "string \<Rightarrow> funcionario_row \<Rightarrow> val option" where
  "column field r =
     (if field = ''idFuncionario'' then Some (VInt (funcionario_row.idFuncionario r))
      else if field = ''nomeFuncionario'' then Some (VStr (funcionario_row.nomeFuncionario r))
      else if field = ''email'' then Some (VStr (funcionario_row.email r))
      else if field = ''usuario'' then Some (VStr (funcionario_row.usuario r))
      else if field = ''senha'' then Some (VStr (funcionario_row.senha r))
      else if field = ''Cargo_idCargo'' then Some (VInt (Cargo_idCargo r))
      else None)"

definition db_insert ::
  "string \<Rightarrow> string \<Rightarrow> string \<Rightarrow> string \<Rightarrow> int \<Rightarrow> world \<Rightarrow> (exn + int) \<times> world" where
  "db_insert n e u h c w =
     (if has_nbsp SQL_create
      then (Inl parse_error,
            emit (Execute INSERT_funcionario [VStr n, VStr e, VStr u, VStr h, VInt c]) w)
      else (Inr (auto_increment w),
            emit (Execute INSERT_funcionario [VStr n, VStr e, VStr u, VStr h, VInt c])
              (w\<lparr>tb_funcionario := tb_funcionario w @
                    [\<lparr>funcionario_row.idFuncionario = auto_increment w,
                      funcionario_row.nomeFuncionario = n, funcionario_row.email = e,
                      funcionario_row.usuario = u, funcionario_row.senha = h,
                      Cargo_idCargo = c\<rparr>],
                 auto_increment := auto_increment w + 1\<rparr>)))"

definition db_delete :: "int \<Rightarrow> world \<Rightarrow> nat \<times> world" where
  "db_delete i w =
     (length (filter (\<lambda>r. funcionario_row.idFuncionario r = i) (tb_funcionario w)),
      emit (Execute DELETE_funcionario [VInt i])
        (w\<lparr>tb_funcionario :=
              filter (\<lambda>r. funcionario_row.idFuncionario r \<noteq> i) (tb_funcionario w)\<rparr>))"

definition db_update_senha ::
  "string \<Rightarrow> string \<Rightarrow> string \<Rightarrow> string \<Rightarrow> int \<Rightarrow> int \<Rightarrow> world \<Rightarrow> (exn + nat) \<times> world" where
  "db_update_senha n e u h c i w =
     (if has_nbsp SQL_update_senha
      then (Inl parse_error,
            emit (Execute UPDATE_funcionario_senha
                    [VStr n, VStr e, VStr u, VStr h, VInt c, VInt i]) w)
      else (Inr (length (filter (\<lambda>r. funcionario_row.idFuncionario r = i) (tb_funcionario w))),
            emit (Execute UPDATE_funcionario_senha
                    [VStr n, VStr e, VStr u, VStr h, VInt c, VInt i])
              (w\<lparr>tb_funcionario :=
                    map (\<lambda>r. if funcionario_row.idFuncionario r = i
                              then r\<lparr>funcionario_row.nomeFuncionario := n,
                                     funcionario_row.email := e, funcionario_row.usuario := u,
                                     funcionario_row.senha := h, Cargo_idCargo := c\<rparr>
                              else r) (tb_funcionario w)\<rparr>)))"

definition db_update ::
  "string \<Rightarrow> string \<Rightarrow> string \<Rightarrow> int \<Rightarrow> int \<Rightarrow> world \<Rightarrow> (exn + nat) \<times> world" where
  "db_update n e u c i w =
     (if has_nbsp SQL_update
      then (Inl parse_error,
            emit (Execute UPDATE_funcionario [VStr n, VStr e, VStr u, VInt c, VInt i]) w)
      else (Inr (length (filter (\<lambda>r. funcionario_row.idFuncionario r = i) (tb_funcionario w))),
            emit (Execute UPDATE_funcionario [VStr n, VStr e, VStr u, VInt c, VInt i])
              (w\<lparr>tb_funcionario :=
                    map (\<lambda>r. if funcionario_row.idFuncionario r = i
                              then r\<lparr>funcionario_row.nomeFuncionario := n,
                                     funcionario_row.email := e, funcionario_row.usuario := u,
                                     Cargo_idCargo := c\<rparr>
                              else r) (tb_funcionario w)\<rparr>)))"

definition db_select :: "string \<Rightarrow> val \<Rightarrow> world \<Rightarrow> funcionario_row list \<times> world" where
  "db_select field v w =
     (filter (\<lambda>r. column field r = Some v) (tb_funcionario w),
      emit (Execute (SELECT_funcionario field) [v]) w)"

text \<open>
  The rows the statement of \<open>login\<close> asks for: every employee with the email, joined with
  every role whose key is the employee's role reference.
\<close>

definition join_by_email :: "string \<Rightarrow> world \<Rightarrow> (funcionario_row \<times> cargo_row) list" where
  "join_by_email e w =
     [(f, c). f \<leftarrow> tb_funcionario w, c \<leftarrow> tb_cargo w,
              cargo_row.idCargo c = Cargo_idCargo f, funcionario_row.email f = e]"

definition db_select_login ::
  "string \<Rightarrow> world \<Rightarrow> (exn + (funcionario_row \<times> cargo_row) list) \<times> world" where
  "db_select_login e w =
     (if has_nbsp SQL_login then Inl parse_error else Inr (join_by_email e w),
      emit (Execute SELECT_login [VStr e]) w)"

section \<open>FuncionarioDAO\<close>

text \<open>
  Each operation takes the world and returns its result with the world it leaves. A
  parameter list holding \<^verbatim>\<open>undefined\<close> makes \<^verbatim>\<open>pool.execute\<close> throw before the statement
  is sent; an error of the engine is thrown on.
\<close>

definition falha_ao_inserir :: exn where
  "falha_ao_inserir = Error [Text (''Falha ao inserir funcion'' @ a_acute @ ''rio'')]"

definition FuncionarioDAO_create ::
  "env \<Rightarrow> Funcionario \<Rightarrow> world \<Rightarrow> (exn + int) \<times> Funcionario \<times> world" where
  "FuncionarioDAO_create ev objFuncionarioModel w =
     (case Funcionario.senha objFuncionarioModel of
        JString plain \<Rightarrow>
          let obj = objFuncionarioModel\<lparr>Funcionario.senha := JString (bcrypt_hash ev plain)\<rparr>;
              w1 = emit (BcryptHash plain) w
          in (case Funcionario.cargo obj of
                None \<Rightarrow> (Inl TypeError, obj, w1)
              | Some c \<Rightarrow>
                  (case (Funcionario.nomeFuncionario obj, Funcionario.email obj,
                         Funcionario.usuario obj, Cargo.idCargo c) of
                     (Some n, Some e, Some u, Some ci) \<Rightarrow>
                       (case db_insert n e u (bcrypt_hash ev plain) ci w1 of
                          (Inl err, w2) \<Rightarrow> (Inl err, obj, w2)
                        | (Inr insertId, w2) \<Rightarrow>
                            if insertId = 0 then (Inl falha_ao_inserir, obj, w2)
                            else (Inr insertId, obj, w2))
                   | _ \<Rightarrow> (Inl TypeError, obj, w1)))
      | JUndefined \<Rightarrow> (Inl bcrypt_hash_required, objFuncionarioModel, w)
      | JNull \<Rightarrow> (Inl bcrypt_hash_required, objFuncionarioModel, w)
      | _ \<Rightarrow> (Inl bcrypt_hash_not_string, objFuncionarioModel, w))"

definition FuncionarioDAO_delete :: "Funcionario \<Rightarrow> world \<Rightarrow> (exn + bool) \<times> world" where
  "FuncionarioDAO_delete objFuncionarioModel w =
     (case Funcionario.idFuncionario objFuncionarioModel of
        None \<Rightarrow> (Inl TypeError, w)
      | Some i \<Rightarrow> let (affectedRows, w1) = db_delete i w in (Inr (affectedRows > 0), w1))"

text \<open>
  \<^verbatim>\<open>if (objFuncionarioModel.senha)\<close> is the truthiness of the field; a truthy password
  that is no string makes \<^verbatim>\<open>bcrypt.hash\<close> reject.
\<close>

definition FuncionarioDAO_update ::
  "env \<Rightarrow> Funcionario \<Rightarrow> world \<Rightarrow> (exn + bool) \<times> world" where
  "FuncionarioDAO_update ev objFuncionarioModel w =
     (if truthy (Funcionario.senha objFuncionarioModel)
      then
        (case Funcionario.senha objFuncionarioModel of
           JString plain \<Rightarrow>
             let senhaHash = bcrypt_hash ev plain;
                 w1 = emit (BcryptHash plain) w
             in (case Funcionario.cargo objFuncionarioModel of
                   None \<Rightarrow> (Inl TypeError, w1)
                 | Some c \<Rightarrow>
                     (case (Funcionario.nomeFuncionario objFuncionarioModel,
                            Funcionario.email objFuncionarioModel,
                            Funcionario.usuario objFuncionarioModel,
                            Cargo.idCargo c,
                            Funcionario.idFuncionario objFuncionarioModel) of
                        (Some n, Some e, Some u, Some ci, Some i) \<Rightarrow>
                          (case db_update_senha n e u senhaHash ci i w1 of
                             (Inl err, w2) \<Rightarrow> (Inl err, w2)
                           | (Inr affectedRows, w2) \<Rightarrow> (Inr (affectedRows > 0), w2))
                      | _ \<Rightarrow> (Inl TypeError, w1)))
         | _ \<Rightarrow> (Inl bcrypt_hash_not_string, w))
      else
        (case Funcionario.cargo objFuncionarioModel of
           None \<Rightarrow> (Inl TypeError, w)
         | Some c \<Rightarrow>
             (case (Funcionario.nomeFuncionario objFuncionarioModel,
                    Funcionario.email objFuncionarioModel,
                    Funcionario.usuario objFuncionarioModel,
                    Cargo.idCargo c,
                    Funcionario.idFuncionario objFuncionarioModel) of
                (Some n, Some e, Some u, Some ci, Some i) \<Rightarrow>
                  (case db_update n e u ci i w of
                     (Inl err, w1) \<Rightarrow> (Inl err, w1)
                   | (Inr affectedRows, w1) \<Rightarrow> (Inr (affectedRows > 0), w1))
              | _ \<Rightarrow> (Inl TypeError, w))))"

definition allowedFields :: "string list" where
  "allowedFields =
     [''idFuncionario'', ''nomeFuncionario'', ''email'', ''usuario'', ''senha'',
      ''Cargo_idCargo'']"

definition campo_invalido :: "string \<Rightarrow> exn" where
  "campo_invalido field =
     Error [Text (''Campo inv'' @ a_acute @ ''lido para busca: ''), Subst (VStr field)]"

definition FuncionarioDAO_findByField ::
  "string \<Rightarrow> val option \<Rightarrow> world \<Rightarrow> (exn + funcionario_row list) \<times> world" where
  "FuncionarioDAO_findByField field v w =
     (if field \<notin> set allowedFields then (Inl (campo_invalido field), w)
      else (case v of
              None \<Rightarrow> (Inl TypeError, w)
            | Some x \<Rightarrow> let (rows, w1) = db_select field x w in (Inr rows, w1)))"

definition FuncionarioDAO_findById ::
  "int option \<Rightarrow> world \<Rightarrow> (exn + funcionario_row option) \<times> world" where
  "FuncionarioDAO_findById i w =
     (case FuncionarioDAO_findByField ''idFuncionario'' (map_option VInt i) w of
        (Inl e, w1) \<Rightarrow> (Inl e, w1)
      | (Inr resultado, w1) \<Rightarrow>
          (Inr (case resultado of [] \<Rightarrow> None | r # _ \<Rightarrow> Some r), w1))"

text \<open>
  The object that \<open>login\<close> assembles from the row it found; \<^verbatim>\<open>parseInt\<close> of the key
  of a role row is that key.
\<close>

definition monta_Funcionario :: "funcionario_row \<Rightarrow> cargo_row \<Rightarrow> Funcionario" where
  "monta_Funcionario funcionarioDB cargoDB =
     (let objCargo =
            new_Cargo\<lparr>Cargo.idCargo := Some (cargo_row.idCargo cargoDB),
                      Cargo.nomeCargo := Some (cargo_row.nomeCargo cargoDB)\<rparr>
      in new_Funcionario
           \<lparr>Funcionario.idFuncionario := Some (funcionario_row.idFuncionario funcionarioDB),
            Funcionario.nomeFuncionario := Some (funcionario_row.nomeFuncionario funcionarioDB),
            Funcionario.email := Some (funcionario_row.email funcionarioDB),
            Funcionario.usuario := Some (funcionario_row.usuario funcionarioDB),
            Funcionario.cargo := Some objCargo\<rparr>)"

text \<open>
  \<open>login\<close> in two steps: the statement, and what the code does with the rows it got
  (from \<^verbatim>\<open>if (resultado.length !== 1)\<close> on).
\<close>

definition FuncionarioDAO_login_resultado ::
  "env \<Rightarrow> Funcionario \<Rightarrow> (funcionario_row \<times> cargo_row) list \<Rightarrow> world
   \<Rightarrow> (exn + Funcionario option) \<times> world" where
  "FuncionarioDAO_login_resultado ev objFuncionarioModel resultado w1 =
     (if length resultado \<noteq> 1 then (Inr None, w1)
      else
        (case resultado of
           [] \<Rightarrow> (Inr None, w1)
         | (funcionarioDB, cargoDB) # _ \<Rightarrow>
             (case Funcionario.senha objFuncionarioModel of
                JString plain \<Rightarrow>
                  let senhaValida =
                        bcrypt_compare ev plain (funcionario_row.senha funcionarioDB);
                      w2 = emit (BcryptCompare plain (funcionario_row.senha funcionarioDB)) w1
                  in if \<not> senhaValida then (Inr None, w2)
                     else (Inr (Some (monta_Funcionario funcionarioDB cargoDB)), w2)
              | JUndefined \<Rightarrow> (Inl bcrypt_compare_required, w1)
              | JNull \<Rightarrow> (Inl bcrypt_compare_required, w1)
              | _ \<Rightarrow> (Inl bcrypt_compare_not_strings, w1))))"

definition FuncionarioDAO_login ::
  "env \<Rightarrow> Funcionario \<Rightarrow> world \<Rightarrow> (exn + Funcionario option) \<times> world" where
  "FuncionarioDAO_login ev objFuncionarioModel w =
     (case Funcionario.email objFuncionarioModel of
        None \<Rightarrow> (Inl TypeError, w)
      | Some e \<Rightarrow>
          (case db_select_login e w of
             (Inl err, w1) \<Rightarrow> (Inl err, w1)
           | (Inr resultado, w1) \<Rightarrow>
               FuncionarioDAO_login_resultado ev objFuncionarioModel resultado w1))"

text \<open>
  Modelled from the spec: \<^verbatim>\<open>CargoDAO.findById\<close> is not among the sources. "Look up Role
  by the supplied identifier via Persistence Gateway (role side)": the role row with
  that identifier, or nothing.
\<close>

definition CargoDAO_findById :: "int \<Rightarrow> world \<Rightarrow> cargo_row option \<times> world" where
  "CargoDAO_findById i w =
     (find (\<lambda>c. cargo_row.idCargo c = i) (tb_cargo w), emit (Execute SELECT_cargo [VInt i]) w)"

section \<open>FuncionarioService\<close>

text \<open>
  The \<^verbatim>\<open>funcionario\<close> object of a create or update body, and that of a login. The
  password is the value of the body (the validation layer asks of it no more than not
  to be empty, and an update may leave it out); the other fields are taken as strings
  and an integer.
\<close>

record cargo_json =
  idCargo :: int

record funcionario_json =
  nomeFuncionario :: string
  email :: string
  senha :: js
  usuario :: string
  cargo :: cargo_json

record login_json =
  email :: string
  senha :: js

record request_body =
  funcionario :: funcionario_json

record user =
  funcionario :: claims

record login_result =
  user :: user
  token :: string

definition cargo_nao_existe :: "int \<Rightarrow> exn" where
  "cargo_nao_existe i =
     ErrorResponse 400 (''O cargo informado n'' @ a_tilde @ ''o existe'')
       [Text ''O Cargo com ID '', Subst (VInt i),
        Text ('' n'' @ a_tilde @ ''o foi encontrado.'')]"

definition email_ja_existe :: "string \<Rightarrow> exn" where
  "email_ja_existe e =
     ErrorResponse 400
       (''J'' @ a_acute @ '' existe um Funcion'' @ a_acute @ ''rio com o email fornecido'')
       [Text ''O email '', Subst (VStr e),
        Text ('' j'' @ a_acute @ '' est'' @ a_acute @ '' cadastrado'')]"

definition usuario_ja_existe :: "string \<Rightarrow> exn" where
  "usuario_ja_existe u =
     ErrorResponse 400
       (''J'' @ a_acute @ '' existe um Funcion'' @ a_acute @ ''rio com o usu'' @ a_acute
          @ ''rio fornecido'')
       [Text (''O usu'' @ a_acute @ ''rio ''), Subst (VStr u),
        Text ('' j'' @ a_acute @ '' est'' @ a_acute @ '' cadastrado'')]"

definition createFuncionario ::
  "env \<Rightarrow> funcionario_json \<Rightarrow> world \<Rightarrow> (exn + Funcionario) \<times> world" where
  "createFuncionario ev jsonFuncionario w =
     (let (cargoExiste, w1) =
            CargoDAO_findById (cargo_json.idCargo (funcionario_json.cargo jsonFuncionario)) w
      in if cargoExiste = None
         then (Inl (cargo_nao_existe
                      (cargo_json.idCargo (funcionario_json.cargo jsonFuncionario))), w1)
         else
           (case FuncionarioDAO_findByField ''email''
                   (Some (VStr (funcionario_json.email jsonFuncionario))) w1 of
              (Inl e, w2) \<Rightarrow> (Inl e, w2)
            | (Inr emailExiste, w2) \<Rightarrow>
                if length emailExiste > 0
                then (Inl (email_ja_existe (funcionario_json.email jsonFuncionario)), w2)
                else
                  (case FuncionarioDAO_findByField ''usuario''
                          (Some (VStr (funcionario_json.usuario jsonFuncionario))) w2 of
                     (Inl e, w3) \<Rightarrow> (Inl e, w3)
                   | (Inr usuarioExiste, w3) \<Rightarrow>
                       if length usuarioExiste > 0
                       then (Inl (usuario_ja_existe
                                    (funcionario_json.usuario jsonFuncionario)), w3)
                       else
                         let objetoCargo =
                               new_Cargo\<lparr>Cargo.idCargo :=
                                 Some (cargo_json.idCargo (funcionario_json.cargo jsonFuncionario))\<rparr>;
                             objFuncionario =
                               new_Funcionario
                                 \<lparr>Funcionario.nomeFuncionario :=
                                    Some (funcionario_json.nomeFuncionario jsonFuncionario),
                                  Funcionario.email :=
                                    Some (funcionario_json.email jsonFuncionario),
                                  Funcionario.usuario :=
                                    Some (funcionario_json.usuario jsonFuncionario),
                                  Funcionario.senha := funcionario_json.senha jsonFuncionario,
                                  Funcionario.cargo := Some objetoCargo\<rparr>
                         in (case FuncionarioDAO_create ev objFuncionario w3 of
                               (Inl e, obj, w4) \<Rightarrow> (Inl e, w4)
                             | (Inr insertId, obj, w4) \<Rightarrow>
                                 (Inr (obj\<lparr>Funcionario.idFuncionario := Some insertId\<rparr>), w4)))))"

text \<open>\<^verbatim>\<open>x || null\<close> on a string field: the string when it is truthy (set and not empty).\<close>

definition or_null :: "string option \<Rightarrow> string option" where
  "or_null x = (case x of None \<Rightarrow> None | Some s \<Rightarrow> if s = [] then None else Some s)"

definition credenciais_invalidas :: exn where
  "credenciais_invalidas =
     ErrorResponse 401 (''Usu'' @ a_acute @ ''rio ou senha inv'' @ a_acute @ ''lidos'')
       [Text (''N'' @ a_tilde @ ''o foi poss'' @ i_acute @ ''vel realizar autentica''
              @ c_cedil @ a_tilde @ ''o'')]"

text \<open>
  \<open>loginFuncionario\<close> in two steps: the lookup, and what the code does with what was
  found (from \<^verbatim>\<open>if (!encontrado)\<close> on).
\<close>

definition loginFuncionario_encontrado :: "env \<Rightarrow> Funcionario option \<Rightarrow> exn + login_result" where
  "loginFuncionario_encontrado ev found =
     (case found of
        None \<Rightarrow> Inl credenciais_invalidas
      | Some encontrado \<Rightarrow>
          let u = \<lparr>user.funcionario =
                     \<lparr>claims.email = Funcionario.email encontrado,
                      claims.usuario = Funcionario.usuario encontrado,
                      claims.role =
                        (case Funcionario.cargo encontrado of
                           None \<Rightarrow> None
                         | Some c \<Rightarrow> or_null (Cargo.nomeCargo c)),
                      claims.name = or_null (Funcionario.nomeFuncionario encontrado),
                      claims.idFuncionario = Funcionario.idFuncionario encontrado\<rparr>\<rparr>
          in Inr \<lparr>login_result.user = u,
                  login_result.token = gerarToken ev (user.funcionario u)\<rparr>)"

definition loginFuncionario ::
  "env \<Rightarrow> login_json \<Rightarrow> world \<Rightarrow> (exn + login_result) \<times> world" where
  "loginFuncionario ev jsonFuncionario w =
     (let objetoFuncionario =
            new_Funcionario\<lparr>Funcionario.email := Some (login_json.email jsonFuncionario),
                            Funcionario.senha := login_json.senha jsonFuncionario\<rparr>
      in (case FuncionarioDAO_login ev objetoFuncionario w of
            (Inl e, w1) \<Rightarrow> (Inl e, w1)
          | (Inr found, w1) \<Rightarrow> (loginFuncionario_encontrado ev found, w1)))"

definition funcionario_nao_encontrado :: "int \<Rightarrow> exn" where
  "funcionario_nao_encontrado i =
     ErrorResponse 404 (''Funcion'' @ a_acute @ ''rio n'' @ a_tilde @ ''o encontrado'')
       [Text (''N'' @ a_tilde @ ''o existe funcion'' @ a_acute @ ''rio com id ''),
        Subst (VInt i)]"

definition findById :: "int \<Rightarrow> world \<Rightarrow> (exn + funcionario_row) \<times> world" where
  "findById i w =
     (let objFuncionario = new_Funcionario\<lparr>Funcionario.idFuncionario := Some i\<rparr>
      in (case FuncionarioDAO_findById (Funcionario.idFuncionario objFuncionario) w of
            (Inl e, w1) \<Rightarrow> (Inl e, w1)
          | (Inr None, w1) \<Rightarrow> (Inl (funcionario_nao_encontrado i), w1)
          | (Inr (Some found), w1) \<Rightarrow> (Inr found, w1)))"

definition updateFuncionario ::
  "env \<Rightarrow> int \<Rightarrow> request_body \<Rightarrow> world \<Rightarrow> (exn + bool) \<times> world" where
  "updateFuncionario ev i requestBody w =
     (let jsonFuncionario = request_body.funcionario requestBody;
          objCargo =
            new_Cargo\<lparr>Cargo.idCargo :=
              Some (cargo_json.idCargo (funcionario_json.cargo jsonFuncionario))\<rparr>;
          objFuncionario =
            new_Funcionario
              \<lparr>Funcionario.idFuncionario := Some i,
               Funcionario.nomeFuncionario :=
                 Some (funcionario_json.nomeFuncionario jsonFuncionario),
               Funcionario.email := Some (funcionario_json.email jsonFuncionario),
               Funcionario.usuario := Some (funcionario_json.usuario jsonFuncionario),
               Funcionario.senha := funcionario_json.senha jsonFuncionario,
               Funcionario.cargo := Some objCargo\<rparr>
      in FuncionarioDAO_update ev objFuncionario w)"

definition deleteFuncionario :: "int \<Rightarrow> world \<Rightarrow> (exn + bool) \<times> world" where
  "deleteFuncionario i w =
     (let funcionario = new_Funcionario\<lparr>Funcionario.idFuncionario := Some i\<rparr>
      in FuncionarioDAO_delete funcionario w)"

section \<open>FuncionarioMiddleware\<close>

text \<open>
  \<^verbatim>\<open>v[k]\<close> for the keys this module reads, none of which is a property of a string,
  a number, a boolean or an array. The code reads a property only behind a guard that
  excludes \<^verbatim>\<open>undefined\<close> and \<^verbatim>\<open>null\<close>.
\<close>

fun property :: "js \<Rightarrow> string \<Rightarrow> js" where
  "property (JObject kvs) k = (case map_of kvs k of None \<Rightarrow> JUndefined | Some v \<Rightarrow> v)"
| "property v k = JUndefined"

fun typeof_object :: "js \<Rightarrow> bool" where
  "typeof_object JNull = True"
| "typeof_object (JObject kvs) = True"
| "typeof_object (JArray xs) = True"
| "typeof_object v = False"

fun Number_isInteger :: "js \<Rightarrow> bool" where
  "Number_isInteger (JInt n) = True"
| "Number_isInteger v = False"

text \<open>\<^verbatim>\<open>v <= 0\<close>, which the code evaluates only after \<^verbatim>\<open>Number.isInteger(v)\<close>.\<close>

fun le_zero :: "js \<Rightarrow> bool" where
  "le_zero (JInt n) = (n \<le> 0)"
| "le_zero v = False"

record request =
  body :: js

abbreviation apostrophe :: string where "apostrophe \<equiv> [CHR 0x27]"

definition erro_validacao :: "message \<Rightarrow> exn" where
  "erro_validacao m =
     ErrorResponse 400 (''Erro na valida'' @ c_cedil @ a_tilde @ ''o de dados'') m"

definition campo_obrigatorio :: "string \<Rightarrow> message" where
  "campo_obrigatorio campo =
     [Text (''O campo '' @ apostrophe), Subst (VStr campo),
      Text (apostrophe @ '' '' @ e_acute @ '' obrigat'' @ o_acute @ ''rio!'')]"

definition funcionario_obrigatorio :: message where
  "funcionario_obrigatorio =
     [Text (''O campo '' @ apostrophe @ ''funcionario'' @ apostrophe @ '' '' @ e_acute
            @ '' obrigat'' @ o_acute @ ''rio!'')]"

definition cargo_deve_ser_objeto :: message where
  "cargo_deve_ser_objeto =
     [Text (''O campo '' @ apostrophe @ ''cargo'' @ apostrophe @ '' deve ser um objeto'')]"

definition idCargo_inteiro_positivo :: message where
  "idCargo_inteiro_positivo =
     [Text (''O campo '' @ apostrophe @ ''idCargo'' @ apostrophe @ '' deve ser um n''
            @ u_acute @ ''mero inteiro positivo'')]"

definition camposObrigatorios :: "string list" where
  "camposObrigatorios = [''nomeFuncionario'', ''email'', ''senha'', ''usuario'', ''cargo'']"

definition campo_vazio :: "js \<Rightarrow> string \<Rightarrow> bool" where
  "campo_vazio obj campo =
     (property obj campo = JUndefined \<or> property obj campo = JNull
      \<or> property obj campo = JString [])"

text \<open>
  \<open>next\<close> is the callback of the framework; the loop over the required fields returns
  at the first empty one.
\<close>

definition validateCreateBody :: "request \<Rightarrow> (exn option \<Rightarrow> 'r) \<Rightarrow> 'r" where
  "validateCreateBody req next =
     (let body = request.body req
      in if \<not> truthy body \<or> \<not> truthy (property body ''funcionario'')
         then next (Some (erro_validacao funcionario_obrigatorio))
         else
           let funcionario = property body ''funcionario''
           in (case find (campo_vazio funcionario) camposObrigatorios of
                 Some campo \<Rightarrow> next (Some (erro_validacao (campo_obrigatorio campo)))
               | None \<Rightarrow>
                   if \<not> typeof_object (property funcionario ''cargo'')
                      \<or> property funcionario ''cargo'' = JNull
                   then next (Some (erro_validacao cargo_deve_ser_objeto))
                   else if \<not> Number_isInteger (property (property funcionario ''cargo'') ''idCargo'')
                           \<or> le_zero (property (property funcionario ''cargo'') ''idCargo'')
                   then next (Some (erro_validacao idCargo_inteiro_positivo))
                   else next None))"

text \<open>
  The framework's dispatch of a route: \<^verbatim>\<open>next()\<close> runs the handler that follows,
  \<^verbatim>\<open>next(err)\<close> skips it and hands the error to the error handling.
\<close>

definition dispatch ::
  "(request \<Rightarrow> (exn option \<Rightarrow> exn + 'a) \<Rightarrow> exn + 'a) \<Rightarrow> (request \<Rightarrow> exn + 'a)
   \<Rightarrow> request \<Rightarrow> exn + 'a" where
  "dispatch middleware handler req =
     middleware req (\<lambda>err. case err of Some e \<Rightarrow> Inl e | None \<Rightarrow> handler req)"

section \<open>A concrete system\<close>

text \<open>
  A stand-in for the hashing library (the hash of a password is the password behind a
  fixed prefix), an employee table with one row, and a role table with one row.
\<close>

definition ex_env :: env where
  "ex_env = \<lparr>bcrypt_hash = (\<lambda>p. ''$2b$12$'' @ p),
             bcrypt_compare = (\<lambda>p h. h = ''$2b$12$'' @ p),
             gerarToken = (\<lambda>c. ''token'')\<rparr>"

definition ex_ana :: funcionario_row where
  "ex_ana = \<lparr>funcionario_row.idFuncionario = 1, funcionario_row.nomeFuncionario = ''Ana'',
             funcionario_row.email = ''ana@x.com'', funcionario_row.usuario = ''ana1'',
             funcionario_row.senha = ''$2b$12$secret'', Cargo_idCargo = 1\<rparr>"

definition ex_world :: world where
  "ex_world = \<lparr>tb_funcionario = [ex_ana],
               tb_cargo = [\<lparr>cargo_row.idCargo = 1, cargo_row.nomeCargo = ''Dev''\<rparr>],
               auto_increment = 2, trace = []\<rparr>"




text \<open>
  Create bodies for that system: one that repeats the stored email and login name and
  refers to a role that is not stored, the same with the stored role, one with a new
  email and the stored login name, and one that is new throughout.
\<close>

definition ex_dup_no_role :: funcionario_json where
  "ex_dup_no_role =
     \<lparr>funcionario_json.nomeFuncionario = ''Ana Dois'',
      funcionario_json.email = ''ana@x.com'',
      funcionario_json.senha = JString ''other'',
      funcionario_json.usuario = ''ana1'',
      funcionario_json.cargo = \<lparr>cargo_json.idCargo = 99\<rparr>\<rparr>"

definition ex_dup :: funcionario_json where
  "ex_dup = ex_dup_no_role\<lparr>funcionario_json.cargo := \<lparr>cargo_json.idCargo = 1\<rparr>\<rparr>"

definition ex_dup_usuario :: funcionario_json where
  "ex_dup_usuario = ex_dup\<lparr>funcionario_json.email := ''ana2@x.com''\<rparr>"

definition ex_bia :: funcionario_json where
  "ex_bia =
     \<lparr>funcionario_json.nomeFuncionario = ''Bia'',
      funcionario_json.email = ''bia@x.com'',
      funcionario_json.senha = JString ''hunter2'',
      funcionario_json.usuario = ''bia1'',
      funcionario_json.cargo = \<lparr>cargo_json.idCargo = 1\<rparr>\<rparr>"

text \<open>
  Update bodies for the stored employee: one that changes the name and gives an empty
  password, one that gives a new password.
\<close>

definition ex_rename :: request_body where
  "ex_rename =
     \<lparr>request_body.funcionario =
        \<lparr>funcionario_json.nomeFuncionario = ''Ana Maria'',
         funcionario_json.email = ''ana@x.com'',
         funcionario_json.senha = JString [],
         funcionario_json.usuario = ''ana1'',
         funcionario_json.cargo = \<lparr>cargo_json.idCargo = 1\<rparr>\<rparr>\<rparr>"

definition ex_repass :: request_body where
  "ex_repass =
     \<lparr>request_body.funcionario =
        (request_body.funcionario ex_rename)\<lparr>funcionario_json.senha := JString ''novo''\<rparr>\<rparr>"

text \<open>
  Requests: an empty body, a body whose email is the empty string (and whose password
  is null), a complete body whose role identifier is zero, and a valid body.
\<close>

definition ex_req_empty :: request where
  "ex_req_empty = \<lparr>request.body = JObject []\<rparr>"

definition ex_req_no_email :: request where
  "ex_req_no_email =
     \<lparr>request.body =
        JObject [(''funcionario'',
          JObject [(''nomeFuncionario'', JString ''Ana''), (''email'', JString []),
                   (''senha'', JNull), (''usuario'', JString ''ana1''),
                   (''cargo'', JObject [(''idCargo'', JInt 1)])])]\<rparr>"

definition ex_req_cargo_zero :: request where
  "ex_req_cargo_zero =
     \<lparr>request.body =
        JObject [(''funcionario'',
          JObject [(''nomeFuncionario'', JString ''Ana''), (''email'', JString ''ana@x.com''),
                   (''senha'', JString ''secret''), (''usuario'', JString ''ana1''),
                   (''cargo'', JObject [(''idCargo'', JInt 0)])])]\<rparr>"

definition ex_req_ok :: request where
  "ex_req_ok =
     \<lparr>request.body =
        JObject [(''funcionario'',
          JObject [(''nomeFuncionario'', JString ''Ana''), (''email'', JString ''ana@x.com''),
                   (''senha'', JString ''secret''), (''usuario'', JString ''ana1''),
                   (''cargo'', JObject [(''idCargo'', JInt 1)])])]\<rparr>"

section \<open>Properties of the persistence operations\<close>

lemma tb_funcionario_emit [simp]: "tb_funcionario (emit e w) = tb_funcionario w"
  and tb_cargo_emit [simp]: "tb_cargo (emit e w) = tb_cargo w"
  and auto_increment_emit [simp]: "auto_increment (emit e w) = auto_increment w"
  and trace_emit [simp]: "trace (emit e w) = trace w @ [e]"
  by (simp_all add: emit_def)

subsection \<open>Deleting\<close>

lemma deleteFuncionario_eq:
  "deleteFuncionario i w =
     (Inr (0 < length (filter (\<lambda>r. funcionario_row.idFuncionario r = i) (tb_funcionario w))),
      emit (Execute DELETE_funcionario [VInt i])
        (w\<lparr>tb_funcionario :=
             filter (\<lambda>r. funcionario_row.idFuncionario r \<noteq> i) (tb_funcionario w)\<rparr>))"
  by (simp add: deleteFuncionario_def FuncionarioDAO_delete_def db_delete_def new_Funcionario_def)

text \<open>
  Claim C6. \<open>deleteFuncionario\<close> never raises: it returns a boolean, which is true
  exactly when a row carries the identifier, that is, exactly when the table got
  shorter. For an identifier that no stored employee carries it returns false and
  leaves both tables as they were; only the statement is recorded.
\<close>

theorem deleteFuncionario_reports_removal:
  "fst (deleteFuncionario i w) =
     Inr (\<exists>r \<in> set (tb_funcionario w). funcionario_row.idFuncionario r = i)
   \<and> fst (deleteFuncionario i w) =
     Inr (length (tb_funcionario (snd (deleteFuncionario i w))) < length (tb_funcionario w))
   \<and> ((\<forall>r \<in> set (tb_funcionario w). funcionario_row.idFuncionario r \<noteq> i) \<longrightarrow>
        deleteFuncionario i w = (Inr False, emit (Execute DELETE_funcionario [VInt i]) w))"
proof -
  let ?hit = "filter (\<lambda>r. funcionario_row.idFuncionario r = i) (tb_funcionario w)"
  let ?rest = "filter (\<lambda>r. funcionario_row.idFuncionario r \<noteq> i) (tb_funcionario w)"
  have split: "length ?hit + length ?rest = length (tb_funcionario w)"
    using sum_length_filter_compl [of "\<lambda>r. funcionario_row.idFuncionario r = i" "tb_funcionario w"]
    by simp
  have hit: "(0 < length ?hit) = (\<exists>r \<in> set (tb_funcionario w). funcionario_row.idFuncionario r = i)"
    by (auto simp: filter_empty_conv)
  have shrink: "(0 < length ?hit) = (length ?rest < length (tb_funcionario w))"
    using split by arith
  have absent: "\<forall>r \<in> set (tb_funcionario w). funcionario_row.idFuncionario r \<noteq> i \<Longrightarrow>
      ?hit = [] \<and> ?rest = tb_funcionario w"
    by (simp add: filter_empty_conv)
  show ?thesis
    using hit shrink absent by (auto simp: deleteFuncionario_eq)
qed

theorem deleteFuncionario_reports_removal_witness:
  "map funcionario_row.idFuncionario (tb_funcionario ex_world) = [1]
   \<and> deleteFuncionario 7 ex_world = (Inr False, emit (Execute DELETE_funcionario [VInt 7]) ex_world)
   \<and> fst (deleteFuncionario 1 ex_world) = Inr True"
  using deleteFuncionario_reports_removal [of 7 ex_world]
    deleteFuncionario_reports_removal [of 1 ex_world]
  by (simp add: ex_world_def ex_ana_def)

subsection \<open>Looking up by field\<close>

lemma allowedFields_set:
  "set allowedFields =
     {''idFuncionario'', ''nomeFuncionario'', ''email'', ''usuario'', ''senha'', ''Cargo_idCargo''}"
  by (simp add: allowedFields_def)

lemma findByField_rejected:
  "field \<notin> set allowedFields \<Longrightarrow>
     FuncionarioDAO_findByField field v w = (Inl (campo_invalido field), w)"
  by (simp add: FuncionarioDAO_findByField_def)

lemma findByField_allowed:
  "field \<in> set allowedFields \<Longrightarrow>
     FuncionarioDAO_findByField field (Some x) w =
       (Inr (filter (\<lambda>r. column field r = Some x) (tb_funcionario w)),
        emit (Execute (SELECT_funcionario field) [x]) w)"
  by (simp add: FuncionarioDAO_findByField_def db_select_def)

lemma findByField_trace:
  "trace (snd (FuncionarioDAO_findByField field v w)) = trace w
   \<or> (field \<in> set allowedFields
       \<and> (\<exists>x. trace (snd (FuncionarioDAO_findByField field v w)) =
                 trace w @ [Execute (SELECT_funcionario field) [x]]))"
  by (cases v) (simp_all add: FuncionarioDAO_findByField_def db_select_def)

text \<open>
  Claim C7. The allow-list holds exactly the six column names. A field name outside it
  makes \<open>findByField\<close> fail with the invalid-field error that names it, with the
  world untouched: no statement was sent. An allowed field name (with a value to bind)
  yields the list of the rows whose column equals the value. Every statement that
  \<open>findByField\<close> adds to the trace is built from an allowed field name.
\<close>

theorem findByField_allow_list:
  "set allowedFields =
     {''idFuncionario'', ''nomeFuncionario'', ''email'', ''usuario'', ''senha'', ''Cargo_idCargo''}
   \<and> (field \<notin> set allowedFields \<longrightarrow>
        FuncionarioDAO_findByField field v w = (Inl (campo_invalido field), w))
   \<and> (field \<in> set allowedFields \<longrightarrow>
        FuncionarioDAO_findByField field (Some x) w =
          (Inr (filter (\<lambda>r. column field r = Some x) (tb_funcionario w)),
           emit (Execute (SELECT_funcionario field) [x]) w))
   \<and> (\<forall>f ps. Execute (SELECT_funcionario f) ps
                 \<in> set (trace (snd (FuncionarioDAO_findByField field v w))) \<longrightarrow>
               Execute (SELECT_funcionario f) ps \<in> set (trace w) \<or> f \<in> set allowedFields)"
proof -
  have "\<forall>f ps. Execute (SELECT_funcionario f) ps
                 \<in> set (trace (snd (FuncionarioDAO_findByField field v w))) \<longrightarrow>
               Execute (SELECT_funcionario f) ps \<in> set (trace w) \<or> f \<in> set allowedFields"
    using findByField_trace [of field v w] by auto
  then show ?thesis
    using allowedFields_set findByField_rejected [of field v w] findByField_allowed [of field x w]
    by blast
qed

theorem findByField_allow_list_witness:
  "''nome'' \<notin> set allowedFields
   \<and> FuncionarioDAO_findByField ''nome'' (Some (VStr ''Ana'')) ex_world
       = (Inl (campo_invalido ''nome''), ex_world)
   \<and> ''usuario'' \<in> set allowedFields
   \<and> FuncionarioDAO_findByField ''usuario'' (Some (VStr ''ana1'')) ex_world
       = (Inr [ex_ana], emit (Execute (SELECT_funcionario ''usuario'') [VStr ''ana1'']) ex_world)"
  using findByField_allow_list [of "''nome''" "Some (VStr ''Ana'')" ex_world]
    findByField_allow_list [of "''usuario''" "Some (VStr ''ana1'')" ex_world "VStr ''ana1''"]
  by (simp add: allowedFields_def ex_world_def ex_ana_def column_def)

subsection \<open>Creating\<close>

lemma column_simps [simp]:
  "column ''idFuncionario'' r = Some (VInt (funcionario_row.idFuncionario r))"
  "column ''email'' r = Some (VStr (funcionario_row.email r))"
  "column ''usuario'' r = Some (VStr (funcionario_row.usuario r))"
  by (simp_all add: column_def)

lemma allowed_simps [simp]:
  "''idFuncionario'' \<in> set allowedFields"
  "''email'' \<in> set allowedFields"
  "''usuario'' \<in> set allowedFields"
  by (simp_all add: allowedFields_def)

lemma CargoDAO_findById_None:
  "(fst (CargoDAO_findById i w) = None) = (\<forall>c \<in> set (tb_cargo w). cargo_row.idCargo c \<noteq> i)"
  by (auto simp: CargoDAO_findById_def find_None_iff)

lemma CargoDAO_findById_world [simp]:
  "snd (CargoDAO_findById i w) = emit (Execute SELECT_cargo [VInt i]) w"
  by (simp add: CargoDAO_findById_def)

lemma createFuncionario_cargo_missing:
  assumes "\<forall>c \<in> set (tb_cargo w).
             cargo_row.idCargo c \<noteq> cargo_json.idCargo (funcionario_json.cargo j)"
  shows "createFuncionario ev j w =
           (Inl (cargo_nao_existe (cargo_json.idCargo (funcionario_json.cargo j))),
            emit (Execute SELECT_cargo [VInt (cargo_json.idCargo (funcionario_json.cargo j))]) w)"
  using assms CargoDAO_findById_None [of "cargo_json.idCargo (funcionario_json.cargo j)" w]
  by (simp add: createFuncionario_def split_beta)

lemma createFuncionario_email_taken:
  assumes "\<exists>c \<in> set (tb_cargo w).
             cargo_row.idCargo c = cargo_json.idCargo (funcionario_json.cargo j)"
    and "\<exists>r \<in> set (tb_funcionario w). funcionario_row.email r = funcionario_json.email j"
  shows "createFuncionario ev j w =
           (Inl (email_ja_existe (funcionario_json.email j)),
            emit (Execute (SELECT_funcionario ''email'') [VStr (funcionario_json.email j)])
              (emit (Execute SELECT_cargo
                       [VInt (cargo_json.idCargo (funcionario_json.cargo j))]) w))"
proof -
  obtain y where cargoExiste:
    "fst (CargoDAO_findById (cargo_json.idCargo (funcionario_json.cargo j)) w) = Some y"
    using assms(1) CargoDAO_findById_None [of "cargo_json.idCargo (funcionario_json.cargo j)" w]
    by auto
  have "filter (\<lambda>r. funcionario_row.email r = funcionario_json.email j)
          (tb_funcionario w) \<noteq> []"
    using assms(2) by (simp add: filter_empty_conv)
  then show ?thesis
    by (simp add: cargoExiste createFuncionario_def split_beta findByField_allowed)
qed

lemma createFuncionario_usuario_taken:
  assumes "\<exists>c \<in> set (tb_cargo w).
             cargo_row.idCargo c = cargo_json.idCargo (funcionario_json.cargo j)"
    and "\<forall>r \<in> set (tb_funcionario w). funcionario_row.email r \<noteq> funcionario_json.email j"
    and "\<exists>r \<in> set (tb_funcionario w). funcionario_row.usuario r = funcionario_json.usuario j"
  shows "createFuncionario ev j w =
           (Inl (usuario_ja_existe (funcionario_json.usuario j)),
            emit (Execute (SELECT_funcionario ''usuario'') [VStr (funcionario_json.usuario j)])
              (emit (Execute (SELECT_funcionario ''email'') [VStr (funcionario_json.email j)])
                 (emit (Execute SELECT_cargo
                          [VInt (cargo_json.idCargo (funcionario_json.cargo j))]) w)))"
proof -
  obtain y where cargoExiste:
    "fst (CargoDAO_findById (cargo_json.idCargo (funcionario_json.cargo j)) w) = Some y"
    using assms(1) CargoDAO_findById_None [of "cargo_json.idCargo (funcionario_json.cargo j)" w]
    by auto
  have "filter (\<lambda>r. funcionario_row.email r = funcionario_json.email j)
          (tb_funcionario w) = []"
    using assms(2) by (simp add: filter_empty_conv)
  moreover have "filter (\<lambda>r. funcionario_row.usuario r = funcionario_json.usuario j)
                   (tb_funcionario w) \<noteq> []"
    using assms(3) by (simp add: filter_empty_conv)
  ultimately show ?thesis
    by (simp add: cargoExiste createFuncionario_def split_beta findByField_allowed)
qed

lemma ex_world_simps [simp]:
  "tb_funcionario ex_world = [ex_ana]"
  "tb_cargo ex_world = [\<lparr>cargo_row.idCargo = 1, cargo_row.nomeCargo = ''Dev''\<rparr>]"
  "auto_increment ex_world = 2"
  "trace ex_world = []"
  by (simp_all add: ex_world_def)

lemma ex_ana_simps [simp]:
  "funcionario_row.idFuncionario ex_ana = 1"
  "funcionario_row.nomeFuncionario ex_ana = ''Ana''"
  "funcionario_row.email ex_ana = ''ana@x.com''"
  "funcionario_row.usuario ex_ana = ''ana1''"
  "funcionario_row.senha ex_ana = ''$2b$12$secret''"
  "Cargo_idCargo ex_ana = 1"
  by (simp_all add: ex_ana_def)

text \<open>
  Claim C1. \<open>createFuncionario\<close> checks the role first, then the email, then the login
  name, and the first check that fails decides the error. When no role row carries the
  referenced identifier, it fails with the error of the missing role, whose message
  holds that identifier, and all it has done is the role lookup: the employee table is
  as it was. When the role exists and a stored employee has the email, the error is
  the one of the email (whatever the login name); the error of the login name needs the
  role to exist and the email to be free.
\<close>

theorem createFuncionario_check_order:
  "((\<forall>c \<in> set (tb_cargo w).
        cargo_row.idCargo c \<noteq> cargo_json.idCargo (funcionario_json.cargo j)) \<longrightarrow>
      createFuncionario ev j w =
        (Inl (cargo_nao_existe (cargo_json.idCargo (funcionario_json.cargo j))),
         emit (Execute SELECT_cargo [VInt (cargo_json.idCargo (funcionario_json.cargo j))]) w)
      \<and> tb_funcionario (snd (createFuncionario ev j w)) = tb_funcionario w)
   \<and> ((\<exists>c \<in> set (tb_cargo w).
          cargo_row.idCargo c = cargo_json.idCargo (funcionario_json.cargo j))
       \<and> (\<exists>r \<in> set (tb_funcionario w). funcionario_row.email r = funcionario_json.email j) \<longrightarrow>
      fst (createFuncionario ev j w) = Inl (email_ja_existe (funcionario_json.email j)))
   \<and> ((\<exists>c \<in> set (tb_cargo w).
          cargo_row.idCargo c = cargo_json.idCargo (funcionario_json.cargo j))
       \<and> (\<forall>r \<in> set (tb_funcionario w). funcionario_row.email r \<noteq> funcionario_json.email j)
       \<and> (\<exists>r \<in> set (tb_funcionario w).
             funcionario_row.usuario r = funcionario_json.usuario j) \<longrightarrow>
      fst (createFuncionario ev j w) = Inl (usuario_ja_existe (funcionario_json.usuario j)))
   \<and> (\<exists>title before after.
         cargo_nao_existe (cargo_json.idCargo (funcionario_json.cargo j)) =
           ErrorResponse 400 title
             [Text before, Subst (VInt (cargo_json.idCargo (funcionario_json.cargo j))),
              Text after])"
proof (intro conjI impI)
  assume missing: "\<forall>c \<in> set (tb_cargo w).
             cargo_row.idCargo c \<noteq> cargo_json.idCargo (funcionario_json.cargo j)"
  show "createFuncionario ev j w =
        (Inl (cargo_nao_existe (cargo_json.idCargo (funcionario_json.cargo j))),
         emit (Execute SELECT_cargo [VInt (cargo_json.idCargo (funcionario_json.cargo j))]) w)"
    by (rule createFuncionario_cargo_missing [OF missing])
  then show "tb_funcionario (snd (createFuncionario ev j w)) = tb_funcionario w"
    by simp
next
  assume "(\<exists>c \<in> set (tb_cargo w).
          cargo_row.idCargo c = cargo_json.idCargo (funcionario_json.cargo j))
       \<and> (\<exists>r \<in> set (tb_funcionario w). funcionario_row.email r = funcionario_json.email j)"
  then show "fst (createFuncionario ev j w) = Inl (email_ja_existe (funcionario_json.email j))"
    by (simp add: createFuncionario_email_taken)
next
  assume "(\<exists>c \<in> set (tb_cargo w).
          cargo_row.idCargo c = cargo_json.idCargo (funcionario_json.cargo j))
       \<and> (\<forall>r \<in> set (tb_funcionario w). funcionario_row.email r \<noteq> funcionario_json.email j)
       \<and> (\<exists>r \<in> set (tb_funcionario w).
             funcionario_row.usuario r = funcionario_json.usuario j)"
  then show "fst (createFuncionario ev j w)
               = Inl (usuario_ja_existe (funcionario_json.usuario j))"
    by (simp add: createFuncionario_usuario_taken)
next
  show "\<exists>title before after.
         cargo_nao_existe (cargo_json.idCargo (funcionario_json.cargo j)) =
           ErrorResponse 400 title
             [Text before, Subst (VInt (cargo_json.idCargo (funcionario_json.cargo j))),
              Text after]"
    by (simp add: cargo_nao_existe_def)
qed

theorem createFuncionario_check_order_witness:
  "createFuncionario ex_env ex_dup_no_role ex_world =
     (Inl (cargo_nao_existe 99), emit (Execute SELECT_cargo [VInt 99]) ex_world)
   \<and> fst (createFuncionario ex_env ex_dup ex_world) = Inl (email_ja_existe ''ana@x.com'')
   \<and> fst (createFuncionario ex_env ex_dup_usuario ex_world) = Inl (usuario_ja_existe ''ana1'')"
  using createFuncionario_check_order [of ex_world ex_dup_no_role ex_env]
    createFuncionario_check_order [of ex_world ex_dup ex_env]
    createFuncionario_check_order [of ex_world ex_dup_usuario ex_env]
  by (simp add: ex_dup_no_role_def ex_dup_def ex_dup_usuario_def)

text \<open>
  Claim C4, as stated, fails: a create that repeats the stored email and the stored
  login name but refers to a role that is not stored fails with the error of the role,
  which is neither of the two conflict errors.
\<close>

theorem createFuncionario_conflict_counterexample:
  "ex_ana \<in> set (tb_funcionario ex_world)
   \<and> funcionario_row.email ex_ana = funcionario_json.email ex_dup_no_role
   \<and> funcionario_row.usuario ex_ana = funcionario_json.usuario ex_dup_no_role
   \<and> fst (createFuncionario ex_env ex_dup_no_role ex_world) = Inl (cargo_nao_existe 99)
   \<and> cargo_nao_existe 99 \<noteq> email_ja_existe (funcionario_json.email ex_dup_no_role)
   \<and> cargo_nao_existe 99 \<noteq> usuario_ja_existe (funcionario_json.usuario ex_dup_no_role)"
  by (simp add: ex_dup_no_role_def createFuncionario_cargo_missing cargo_nao_existe_def
      email_ja_existe_def usuario_ja_existe_def)

text \<open>
  Claim C4, amended: provided the referenced role exists. Then a create with a stored
  email fails with the conflict error of the email, whatever its other fields; a create
  with a stored login name fails with a conflict error, the one of the login name when
  its email is not stored. In both cases only lookups were made: the employee table
  and the key counter are as they were, and the trace grew by the two or three
  \<^verbatim>\<open>SELECT\<close> statements alone.
\<close>

theorem createFuncionario_conflict:
  assumes "\<exists>c \<in> set (tb_cargo w).
             cargo_row.idCargo c = cargo_json.idCargo (funcionario_json.cargo j)"
  shows "((\<exists>r \<in> set (tb_funcionario w). funcionario_row.email r = funcionario_json.email j) \<longrightarrow>
            createFuncionario ev j w =
              (Inl (email_ja_existe (funcionario_json.email j)),
               w\<lparr>trace := trace w @
                    [Execute SELECT_cargo [VInt (cargo_json.idCargo (funcionario_json.cargo j))],
                     Execute (SELECT_funcionario ''email'')
                       [VStr (funcionario_json.email j)]]\<rparr>))
         \<and> ((\<exists>r \<in> set (tb_funcionario w).
                funcionario_row.usuario r = funcionario_json.usuario j)
             \<and> (\<forall>r \<in> set (tb_funcionario w).
                   funcionario_row.email r \<noteq> funcionario_json.email j) \<longrightarrow>
            createFuncionario ev j w =
              (Inl (usuario_ja_existe (funcionario_json.usuario j)),
               w\<lparr>trace := trace w @
                    [Execute SELECT_cargo [VInt (cargo_json.idCargo (funcionario_json.cargo j))],
                     Execute (SELECT_funcionario ''email'') [VStr (funcionario_json.email j)],
                     Execute (SELECT_funcionario ''usuario'')
                       [VStr (funcionario_json.usuario j)]]\<rparr>))
         \<and> ((\<exists>r \<in> set (tb_funcionario w).
                funcionario_row.usuario r = funcionario_json.usuario j) \<longrightarrow>
            (fst (createFuncionario ev j w) = Inl (email_ja_existe (funcionario_json.email j))
             \<or> fst (createFuncionario ev j w)
                 = Inl (usuario_ja_existe (funcionario_json.usuario j)))
            \<and> tb_funcionario (snd (createFuncionario ev j w)) = tb_funcionario w
            \<and> auto_increment (snd (createFuncionario ev j w)) = auto_increment w)"
proof (intro conjI impI)
  assume "\<exists>r \<in> set (tb_funcionario w). funcionario_row.email r = funcionario_json.email j"
  then show "createFuncionario ev j w =
              (Inl (email_ja_existe (funcionario_json.email j)),
               w\<lparr>trace := trace w @
                    [Execute SELECT_cargo [VInt (cargo_json.idCargo (funcionario_json.cargo j))],
                     Execute (SELECT_funcionario ''email'')
                       [VStr (funcionario_json.email j)]]\<rparr>)"
    using assms by (simp add: createFuncionario_email_taken emit_def)
next
  assume "(\<exists>r \<in> set (tb_funcionario w).
                funcionario_row.usuario r = funcionario_json.usuario j)
             \<and> (\<forall>r \<in> set (tb_funcionario w).
                   funcionario_row.email r \<noteq> funcionario_json.email j)"
  then show "createFuncionario ev j w =
              (Inl (usuario_ja_existe (funcionario_json.usuario j)),
               w\<lparr>trace := trace w @
                    [Execute SELECT_cargo [VInt (cargo_json.idCargo (funcionario_json.cargo j))],
                     Execute (SELECT_funcionario ''email'') [VStr (funcionario_json.email j)],
                     Execute (SELECT_funcionario ''usuario'')
                       [VStr (funcionario_json.usuario j)]]\<rparr>)"
    using assms by (simp add: createFuncionario_usuario_taken emit_def)
next
  assume taken: "\<exists>r \<in> set (tb_funcionario w).
                funcionario_row.usuario r = funcionario_json.usuario j"
  show "fst (createFuncionario ev j w) = Inl (email_ja_existe (funcionario_json.email j))
             \<or> fst (createFuncionario ev j w)
                 = Inl (usuario_ja_existe (funcionario_json.usuario j))"
    using assms taken createFuncionario_email_taken [of w j ev]
      createFuncionario_usuario_taken [of w j ev]
    by (cases "\<exists>r \<in> set (tb_funcionario w). funcionario_row.email r = funcionario_json.email j")
      simp_all
  show "tb_funcionario (snd (createFuncionario ev j w)) = tb_funcionario w"
    using assms taken createFuncionario_email_taken [of w j ev]
      createFuncionario_usuario_taken [of w j ev]
    by (cases "\<exists>r \<in> set (tb_funcionario w). funcionario_row.email r = funcionario_json.email j")
      simp_all
  show "auto_increment (snd (createFuncionario ev j w)) = auto_increment w"
    using assms taken createFuncionario_email_taken [of w j ev]
      createFuncionario_usuario_taken [of w j ev]
    by (cases "\<exists>r \<in> set (tb_funcionario w). funcionario_row.email r = funcionario_json.email j")
      simp_all
qed

theorem createFuncionario_conflict_witness:
  "map cargo_row.idCargo (tb_cargo ex_world) = [1]
   \<and> cargo_json.idCargo (funcionario_json.cargo ex_dup) = 1
   \<and> fst (createFuncionario ex_env ex_dup ex_world) = Inl (email_ja_existe ''ana@x.com'')
   \<and> fst (createFuncionario ex_env ex_dup_usuario ex_world) = Inl (usuario_ja_existe ''ana1'')
   \<and> tb_funcionario (snd (createFuncionario ex_env ex_dup_usuario ex_world)) = [ex_ana]"
  using createFuncionario_conflict [of ex_world ex_dup ex_env]
    createFuncionario_conflict [of ex_world ex_dup_usuario ex_env]
  by (simp add: ex_dup_no_role_def ex_dup_def ex_dup_usuario_def)

subsection \<open>The statements the engine refuses\<close>

lemma has_nbsp_texts:
  "has_nbsp SQL_create" "has_nbsp SQL_update_senha" "has_nbsp SQL_update" "has_nbsp SQL_login"
  by (simp_all add: SQL_create_def SQL_update_senha_def SQL_update_def SQL_login_def
      indent12_def indent16_def)

lemma one_line_texts:
  "\<not> has_nbsp SQL_delete"
  "field \<in> set allowedFields \<Longrightarrow> \<not> has_nbsp (SQL_findByField field)"
  by (auto simp: SQL_delete_def SQL_findByField_def allowedFields_def)

lemma db_insert_refused:
  "db_insert n e u h c w =
     (Inl parse_error,
      emit (Execute INSERT_funcionario [VStr n, VStr e, VStr u, VStr h, VInt c]) w)"
  by (simp add: db_insert_def has_nbsp_texts)

lemma db_update_senha_refused:
  "db_update_senha n e u h c i w =
     (Inl parse_error,
      emit (Execute UPDATE_funcionario_senha
              [VStr n, VStr e, VStr u, VStr h, VInt c, VInt i]) w)"
  by (simp add: db_update_senha_def has_nbsp_texts)

lemma db_update_refused:
  "db_update n e u c i w =
     (Inl parse_error,
      emit (Execute UPDATE_funcionario [VStr n, VStr e, VStr u, VInt c, VInt i]) w)"
  by (simp add: db_update_def has_nbsp_texts)

lemma db_select_login_refused:
  "db_select_login e w = (Inl parse_error, emit (Execute SELECT_login [VStr e]) w)"
  by (simp add: db_select_login_def has_nbsp_texts)


lemma FuncionarioDAO_create_fails:
  "\<not> (\<exists>i. fst (FuncionarioDAO_create ev given w) = Inr i)"
  by (cases "Funcionario.senha given")
    (simp_all add: FuncionarioDAO_create_def db_insert_refused Let_def
      split: option.splits prod.splits)

lemma FuncionarioDAO_create_rows:
  "tb_funcionario (snd (snd (FuncionarioDAO_create ev given w))) = tb_funcionario w"
  by (cases "Funcionario.senha given")
    (simp_all add: FuncionarioDAO_create_def db_insert_refused Let_def
      split: option.splits prod.splits)

lemma findByField_rows:
  "tb_funcionario (snd (FuncionarioDAO_findByField field v w)) = tb_funcionario w"
  by (simp add: FuncionarioDAO_findByField_def db_select_def split: option.splits)

lemma createFuncionario_fails:
  "\<not> (\<exists>obj. fst (createFuncionario ev j w) = Inr obj)"
proof
  assume "\<exists>obj. fst (createFuncionario ev j w) = Inr obj"
  then obtain obj where "fst (createFuncionario ev j w) = Inr obj" ..
  then obtain given w3 i where "fst (FuncionarioDAO_create ev given w3) = Inr i"
    by (auto simp: createFuncionario_def Let_def split_beta
        split: if_splits prod.splits sum.splits)
  then show False using FuncionarioDAO_create_fails by blast
qed

lemma createFuncionario_rows:
  "tb_funcionario (snd (createFuncionario ev j w)) = tb_funcionario w"
  by (auto simp: createFuncionario_def Let_def split_beta CargoDAO_findById_def
      FuncionarioDAO_findByField_def db_select_def
      split: if_splits prod.splits sum.splits
      dest: arg_cong [where f = "\<lambda>r. tb_funcionario (snd (snd r))"]
      simp: FuncionarioDAO_create_rows)

lemma createFuncionario_ex_bia:
  "createFuncionario ex_env ex_bia ex_world =
     (Inl parse_error,
      ex_world\<lparr>trace :=
        [Execute SELECT_cargo [VInt 1],
         Execute (SELECT_funcionario ''email'') [VStr ''bia@x.com''],
         Execute (SELECT_funcionario ''usuario'') [VStr ''bia1''],
         BcryptHash ''hunter2'',
         Execute INSERT_funcionario
           [VStr ''Bia'', VStr ''bia@x.com'', VStr ''bia1'', VStr ''$2b$12$hunter2'',
            VInt 1]]\<rparr>)"
  by (simp add: createFuncionario_def CargoDAO_findById_def findByField_allowed
      FuncionarioDAO_create_def db_insert_refused new_Funcionario_def new_Cargo_def
      ex_bia_def ex_env_def ex_world_def ex_ana_def emit_def Let_def)

lemma findById_first:
  "fst (findById i w) =
     (case filter (\<lambda>r. funcionario_row.idFuncionario r = i) (tb_funcionario w) of
        [] \<Rightarrow> Inl (funcionario_nao_encontrado i)
      | r # _ \<Rightarrow> Inr r)"
  by (simp add: findById_def FuncionarioDAO_findById_def findByField_allowed new_Funcionario_def
      split: list.splits)

text \<open>
  Claim C5. The text of the \<^verbatim>\<open>INSERT\<close> holds U+00A0, so the engine refuses it: no call
  of \<open>createFuncionario\<close> returns an employee, and none adds a row. For the body of Bia,
  which passes the three checks, the call ends in the error of the engine, and
  \<open>findById\<close> on the key the row would have got finds nothing. The round trip of the
  claim is never reached.
\<close>

theorem createFuncionario_never_inserts:
  "\<not> (\<exists>obj. fst (createFuncionario ev j w) = Inr obj)
   \<and> tb_funcionario (snd (createFuncionario ev j w)) = tb_funcionario w
   \<and> has_nbsp SQL_create
   \<and> fst (createFuncionario ex_env ex_bia ex_world) = Inl parse_error
   \<and> fst (findById 2 (snd (createFuncionario ex_env ex_bia ex_world)))
       = Inl (funcionario_nao_encontrado 2)"
  using createFuncionario_fails [of ev j w] createFuncionario_rows [of ev j w]
  by (simp add: has_nbsp_texts createFuncionario_ex_bia findById_first)


subsection \<open>Updating\<close>

lemma FuncionarioDAO_update_fails:
  "\<not> (\<exists>r. fst (FuncionarioDAO_update ev given w) = Inr r)"
  by (cases "Funcionario.senha given")
    (simp_all add: FuncionarioDAO_update_def db_update_refused db_update_senha_refused Let_def
      split: option.splits prod.splits)

lemma FuncionarioDAO_update_rows:
  "tb_funcionario (snd (FuncionarioDAO_update ev given w)) = tb_funcionario w"
  by (cases "Funcionario.senha given")
    (simp_all add: FuncionarioDAO_update_def db_update_refused db_update_senha_refused Let_def
      split: option.splits prod.splits)

lemma updateFuncionario_ex_repass:
  "updateFuncionario ex_env 1 ex_repass ex_world =
     (Inl parse_error,
      ex_world\<lparr>trace :=
        [BcryptHash ''novo'',
         Execute UPDATE_funcionario_senha
           [VStr ''Ana Maria'', VStr ''ana@x.com'', VStr ''ana1'', VStr ''$2b$12$novo'',
            VInt 1, VInt 1]]\<rparr>)"
  by (simp add: updateFuncionario_def FuncionarioDAO_update_def db_update_senha_refused
      new_Funcionario_def new_Cargo_def ex_repass_def ex_rename_def ex_env_def ex_world_def
      emit_def Let_def)

lemma updateFuncionario_ex_rename:
  "updateFuncionario ex_env 1 ex_rename ex_world =
     (Inl parse_error,
      ex_world\<lparr>trace :=
        [Execute UPDATE_funcionario
           [VStr ''Ana Maria'', VStr ''ana@x.com'', VStr ''ana1'', VInt 1, VInt 1]]\<rparr>)"
  by (simp add: updateFuncionario_def FuncionarioDAO_update_def db_update_refused
      new_Funcionario_def new_Cargo_def ex_rename_def ex_env_def ex_world_def
      emit_def Let_def)

text \<open>
  Claim C3. Both \<^verbatim>\<open>UPDATE\<close> texts hold U+00A0, so the engine refuses them: no call of
  \<open>updateFuncionario\<close> returns a boolean, and none changes a row. With an empty password
  the statement without the password column is sent and no hash is computed; the stored
  hash stays, as the claim says. With the password \<^verbatim>\<open>novo\<close> the hash is computed and
  sent, the call ends in the error of the engine, and the stored hash is still the old
  one: it is not replaced.
\<close>

theorem updateFuncionario_never_writes:
  "\<not> (\<exists>r. fst (updateFuncionario ev i b w) = Inr r)
   \<and> tb_funcionario (snd (updateFuncionario ev i b w)) = tb_funcionario w
   \<and> has_nbsp SQL_update_senha
   \<and> has_nbsp SQL_update
   \<and> updateFuncionario ex_env 1 ex_rename ex_world =
       (Inl parse_error,
        ex_world\<lparr>trace :=
          [Execute UPDATE_funcionario
             [VStr ''Ana Maria'', VStr ''ana@x.com'', VStr ''ana1'', VInt 1, VInt 1]]\<rparr>)
   \<and> updateFuncionario ex_env 1 ex_repass ex_world =
       (Inl parse_error,
        ex_world\<lparr>trace :=
          [BcryptHash ''novo'',
           Execute UPDATE_funcionario_senha
             [VStr ''Ana Maria'', VStr ''ana@x.com'', VStr ''ana1'', VStr ''$2b$12$novo'',
              VInt 1, VInt 1]]\<rparr>)
   \<and> map funcionario_row.senha
         (tb_funcionario (snd (updateFuncionario ex_env 1 ex_repass ex_world)))
       = [''$2b$12$secret'']"
  using FuncionarioDAO_update_fails FuncionarioDAO_update_rows
  by (simp add: has_nbsp_texts updateFuncionario_ex_rename updateFuncionario_ex_repass)
     (simp add: updateFuncionario_def Let_def)

subsection \<open>Logging in\<close>

lemma FuncionarioDAO_login_refused:
  "Funcionario.email obj = Some e \<Longrightarrow>
     FuncionarioDAO_login ev obj w = (Inl parse_error, emit (Execute SELECT_login [VStr e]) w)"
  by (simp add: FuncionarioDAO_login_def db_select_login_refused)

lemma loginFuncionario_refused:
  "loginFuncionario ev j w =
     (Inl parse_error, emit (Execute SELECT_login [VStr (login_json.email j)]) w)"
  by (simp add: loginFuncionario_def FuncionarioDAO_login_refused new_Funcionario_def)

lemma login_resultado_not_single:
  "length resultado \<noteq> 1 \<Longrightarrow>
     FuncionarioDAO_login_resultado ev obj resultado w1 = (Inr None, w1)"
  by (simp add: FuncionarioDAO_login_resultado_def)

lemma login_resultado_single:
  "FuncionarioDAO_login_resultado ev (obj\<lparr>Funcionario.senha := JString plain\<rparr>) [(f, c)] w1 =
     (Inr (if bcrypt_compare ev plain (funcionario_row.senha f)
           then Some (monta_Funcionario f c) else None),
      emit (BcryptCompare plain (funcionario_row.senha f)) w1)"
  by (simp add: FuncionarioDAO_login_resultado_def Let_def)

lemma login_resultado_number:
  "FuncionarioDAO_login_resultado ev (obj\<lparr>Funcionario.senha := JInt n\<rparr>) [(f, c)] w1 =
     (Inl bcrypt_compare_not_strings, w1)"
  by (simp add: FuncionarioDAO_login_resultado_def)


text \<open>
  Claim C2. The text of the statement of \<open>login\<close> holds U+00A0, so the engine refuses
  it: every login, whatever its email and password, ends in the error of the engine,
  which is not the unauthorized error (it is no \<^verbatim>\<open>ErrorResponse\<close> and carries no status
  401). And from the rows on, a password that is a number (the login validation lets
  it through) makes the comparison reject with an error of the library when one row was
  found, while no row gives the unauthorized error: the two cases differ.
\<close>

theorem loginFuncionario_never_unauthorized:
  "loginFuncionario ev j w =
     (Inl parse_error, emit (Execute SELECT_login [VStr (login_json.email j)]) w)
   \<and> has_nbsp SQL_login
   \<and> parse_error \<noteq> credenciais_invalidas
   \<and> FuncionarioDAO_login_resultado ev (obj\<lparr>Funcionario.senha := JInt n\<rparr>) [(f, c)] w1
       = (Inl bcrypt_compare_not_strings, w1)
   \<and> FuncionarioDAO_login_resultado ev (obj\<lparr>Funcionario.senha := JInt n\<rparr>) [] w1
       = (Inr None, w1)
   \<and> loginFuncionario_encontrado ev None = Inl credenciais_invalidas
   \<and> bcrypt_compare_not_strings \<noteq> credenciais_invalidas"
  using loginFuncionario_refused [of ev j w]
    login_resultado_number [where ev = ev and obj = obj and n = n and f = f and c = c and ?w1.0 = w1]
  by (simp add: has_nbsp_texts login_resultado_not_single loginFuncionario_encontrado_def
      parse_error_def credenciais_invalidas_def bcrypt_compare_not_strings_def)








section \<open>Properties of the validation layer\<close>

lemma falsy_property: "\<not> truthy v \<Longrightarrow> property v k = JUndefined"
  by (cases v) simp_all

lemma validateCreateBody_natural:
  "validateCreateBody req next = next (validateCreateBody req (\<lambda>x. x))"
  by (auto simp: validateCreateBody_def Let_def split: option.splits)

lemma validateCreateBody_no_container:
  assumes "\<not> truthy (property (request.body req) ''funcionario'')"
  shows "validateCreateBody req next = next (Some (erro_validacao funcionario_obrigatorio))"
  using assms by (simp add: validateCreateBody_def Let_def)

lemma validateCreateBody_container:
  assumes "truthy (property (request.body req) ''funcionario'')"
  shows "validateCreateBody req next =
           (case find (campo_vazio (property (request.body req) ''funcionario''))
                   camposObrigatorios of
              Some campo \<Rightarrow> next (Some (erro_validacao (campo_obrigatorio campo)))
            | None \<Rightarrow>
                if \<not> typeof_object (property (property (request.body req) ''funcionario'') ''cargo'')
                then next (Some (erro_validacao cargo_deve_ser_objeto))
                else if \<not> Number_isInteger
                           (property (property (property (request.body req) ''funcionario'')
                              ''cargo'') ''idCargo'')
                        \<or> le_zero
                           (property (property (property (request.body req) ''funcionario'')
                              ''cargo'') ''idCargo'')
                then next (Some (erro_validacao idCargo_inteiro_positivo))
                else next None)"
proof -
  have body: "truthy (request.body req)"
  proof (rule ccontr)
    assume "\<not> truthy (request.body req)"
    then have "property (request.body req) ''funcionario'' = JUndefined"
      by (rule falsy_property)
    with assms show False by simp
  qed
  have "property (property (request.body req) ''funcionario'') ''cargo'' \<noteq> JNull"
    if "find (campo_vazio (property (request.body req) ''funcionario'')) camposObrigatorios = None"
  proof -
    from that have "\<forall>c \<in> set camposObrigatorios.
                      \<not> campo_vazio (property (request.body req) ''funcionario'') c"
      by (simp only: find_None_iff) blast
    then have "\<not> campo_vazio (property (request.body req) ''funcionario'') ''cargo''"
      by (simp add: camposObrigatorios_def)
    then show ?thesis by (simp add: campo_vazio_def)
  qed
  then show ?thesis
    using assms body by (simp add: validateCreateBody_def Let_def split: option.splits)
qed

lemma positive_integer:
  "(Number_isInteger v \<and> \<not> le_zero v) = (\<exists>n. v = JInt n \<and> 0 < n)"
  by (cases v) auto

text \<open>
  Claim C8. With \<open>f\<close> the \<^verbatim>\<open>funcionario\<close> container of the body: when the container is
  missing (or falsy) the validation calls \<open>next\<close> with the validation error that names
  \<^verbatim>\<open>funcionario\<close>; when it is there and a required field is absent, null or the empty
  string, it calls \<open>next\<close> with the validation error that names the first such field;
  when all required fields are there and \<^verbatim>\<open>cargo.idCargo\<close> is not a positive integer
  (in particular when \<^verbatim>\<open>cargo\<close> is no object), it calls \<open>next\<close> with a validation error
  about \<^verbatim>\<open>cargo\<close> or \<^verbatim>\<open>idCargo\<close>; otherwise it calls \<open>next\<close> with no error. Every
  validation error has status 400. The handler that follows in the route runs only in
  the last case.
\<close>

theorem validateCreateBody_shape:
  "(\<not> truthy (property (request.body req) ''funcionario'') \<longrightarrow>
      validateCreateBody req next = next (Some (erro_validacao funcionario_obrigatorio)))
   \<and> (truthy (property (request.body req) ''funcionario'')
       \<and> (\<exists>c \<in> set camposObrigatorios.
             campo_vazio (property (request.body req) ''funcionario'') c) \<longrightarrow>
      (\<exists>c \<in> set camposObrigatorios.
          campo_vazio (property (request.body req) ''funcionario'') c
          \<and> find (campo_vazio (property (request.body req) ''funcionario''))
                camposObrigatorios = Some c
          \<and> validateCreateBody req next = next (Some (erro_validacao (campo_obrigatorio c)))))
   \<and> (truthy (property (request.body req) ''funcionario'')
       \<and> (\<forall>c \<in> set camposObrigatorios.
             \<not> campo_vazio (property (request.body req) ''funcionario'') c)
       \<and> \<not> (\<exists>n. property (property (property (request.body req) ''funcionario'') ''cargo'')
                    ''idCargo'' = JInt n \<and> 0 < n) \<longrightarrow>
      validateCreateBody req next =
        next (Some (erro_validacao
          (if typeof_object (property (property (request.body req) ''funcionario'') ''cargo'')
           then idCargo_inteiro_positivo else cargo_deve_ser_objeto))))
   \<and> (truthy (property (request.body req) ''funcionario'')
       \<and> (\<forall>c \<in> set camposObrigatorios.
             \<not> campo_vazio (property (request.body req) ''funcionario'') c)
       \<and> (\<exists>n. property (property (property (request.body req) ''funcionario'') ''cargo'')
                 ''idCargo'' = JInt n \<and> 0 < n) \<longrightarrow>
      validateCreateBody req next = next None)
   \<and> (\<exists>title. \<forall>m. erro_validacao m = ErrorResponse 400 title m)
   \<and> (\<forall>c. Subst (VStr c) \<in> set (campo_obrigatorio c))
   \<and> set camposObrigatorios = {''nomeFuncionario'', ''email'', ''senha'', ''usuario'', ''cargo''}
   \<and> dispatch validateCreateBody handler req =
       (case validateCreateBody req (\<lambda>x. x) of Some e \<Rightarrow> Inl e | None \<Rightarrow> handler req)"
proof (intro conjI impI)
  let ?f = "property (request.body req) ''funcionario''"
  let ?id = "property (property ?f ''cargo'') ''idCargo''"
  show "validateCreateBody req next = next (Some (erro_validacao funcionario_obrigatorio))"
    if "\<not> truthy ?f"
    using that by (rule validateCreateBody_no_container)
  show "\<exists>c \<in> set camposObrigatorios.
          campo_vazio ?f c \<and> find (campo_vazio ?f) camposObrigatorios = Some c
          \<and> validateCreateBody req next = next (Some (erro_validacao (campo_obrigatorio c)))"
    if "truthy ?f \<and> (\<exists>c \<in> set camposObrigatorios. campo_vazio ?f c)"
  proof -
    from that obtain c where found: "find (campo_vazio ?f) camposObrigatorios = Some c"
      by (cases "find (campo_vazio ?f) camposObrigatorios") (auto simp: find_None_iff)
    then have "c \<in> set camposObrigatorios \<and> campo_vazio ?f c"
      by (auto simp: find_Some_iff)
    then show ?thesis
      using that found by (auto simp: validateCreateBody_container)
  qed
  show "validateCreateBody req next =
        next (Some (erro_validacao
          (if typeof_object (property ?f ''cargo'')
           then idCargo_inteiro_positivo else cargo_deve_ser_objeto)))"
    if "truthy ?f \<and> (\<forall>c \<in> set camposObrigatorios. \<not> campo_vazio ?f c)
        \<and> \<not> (\<exists>n. ?id = JInt n \<and> 0 < n)"
  proof -
    from that have "find (campo_vazio ?f) camposObrigatorios = None"
      by (simp add: find_None_iff)
    moreover from that have "\<not> Number_isInteger ?id \<or> le_zero ?id"
      using positive_integer [of ?id] by blast
    ultimately show ?thesis
      using that by (simp add: validateCreateBody_container)
  qed
  show "validateCreateBody req next = next None"
    if "truthy ?f \<and> (\<forall>c \<in> set camposObrigatorios. \<not> campo_vazio ?f c)
        \<and> (\<exists>n. ?id = JInt n \<and> 0 < n)"
  proof -
    from that have none: "find (campo_vazio ?f) camposObrigatorios = None"
      by (simp add: find_None_iff)
    from that obtain n where n: "?id = JInt n" "0 < n" by blast
    then have "typeof_object (property ?f ''cargo'')"
      by (cases "property ?f ''cargo''") simp_all
    then show ?thesis
      using that none n by (simp add: validateCreateBody_container)
  qed
  show "\<exists>title. \<forall>m. erro_validacao m = ErrorResponse 400 title m"
    by (simp add: erro_validacao_def)
  show "\<forall>c. Subst (VStr c) \<in> set (campo_obrigatorio c)"
    by (simp add: campo_obrigatorio_def)
  show "set camposObrigatorios = {''nomeFuncionario'', ''email'', ''senha'', ''usuario'', ''cargo''}"
    by (simp add: camposObrigatorios_def)
  show "dispatch validateCreateBody handler req =
       (case validateCreateBody req (\<lambda>x. x) of Some e \<Rightarrow> Inl e | None \<Rightarrow> handler req)"
    unfolding dispatch_def by (rule validateCreateBody_natural)
qed

theorem validateCreateBody_shape_witness:
  "validateCreateBody ex_req_empty (\<lambda>x. x) = Some (erro_validacao funcionario_obrigatorio)
   \<and> campo_vazio (property (request.body ex_req_no_email) ''funcionario'') ''email''
   \<and> validateCreateBody ex_req_no_email (\<lambda>x. x)
       = Some (erro_validacao (campo_obrigatorio ''email''))
   \<and> validateCreateBody ex_req_cargo_zero (\<lambda>x. x)
       = Some (erro_validacao idCargo_inteiro_positivo)
   \<and> validateCreateBody ex_req_ok (\<lambda>x. x) = None
   \<and> dispatch validateCreateBody (\<lambda>r. Inr True) ex_req_no_email
       = Inl (erro_validacao (campo_obrigatorio ''email''))
   \<and> dispatch validateCreateBody (\<lambda>r. Inr True) ex_req_ok = Inr True"
  using validateCreateBody_shape [of ex_req_empty "\<lambda>x. x" "\<lambda>r. Inr True"]
    validateCreateBody_shape [of ex_req_no_email "\<lambda>x. x" "\<lambda>r. Inr True"]
    validateCreateBody_shape [of ex_req_cargo_zero "\<lambda>x. x" "\<lambda>r. Inr True"]
    validateCreateBody_shape [of ex_req_ok "\<lambda>x. x" "\<lambda>r. Inr True"]
  by (simp add: ex_req_empty_def ex_req_no_email_def ex_req_cargo_zero_def ex_req_ok_def
      camposObrigatorios_def campo_vazio_def)

end
